theory Spec2Isabelle
  imports Complex_Main
begin

section \<open>The tax engine of TaxBot (tax\_engine.py)\<close>

text \<open>
  The engine is a pipeline of pure functions over plain numbers and dictionaries.
  Amounts and rates are Python numbers; here they are real numbers, and a rate literal
  such as \<open>0.05\<close> stands for its decimal value: arithmetic is exact, the rounding of
  binary floating point is not part of the model. Every theorem below is a statement
  about this exact arithmetic.
\<close>

subsection \<open>Data\<close>

text \<open>
  Two kinds of failure are named. \<open>TypeError\<close> is what Python raises when the value
  \<open>None\<close> is subscripted. \<open>UnsupportedFiscalYear\<close> is the failure the specification
  names; tax\_engine.py has no statement that raises it, so no function below returns it.
\<close>

datatype py_error = TypeError | UnsupportedFiscalYear

text \<open>The upper bound of a slab is a number or \<open>float('inf')\<close>.\<close>

datatype upper_bound = Upto real | Unbounded

type_synonym slab_rule = "real \<times> upper_bound \<times> real"

record tax_config =
  slabs :: "slab_rule list"
  standard_deduction :: real
  rebate_limit :: real
  rebate_max :: real
  advance_tax_threshold :: real

text \<open>
  One entry of the breakdown. The label of the source is one of two format strings over
  the bounds, \<open>Rs. l - Rs. u\<close> and \<open>Rs. l+\<close>, written with a formatter of the module
  indian\_formatter; the entry keeps the bounds the label is made of. The rate is kept
  as the percentage \<open>rate * 100\<close> that the source prints.
\<close>

datatype slab_label = Between real real | Above real

record breakdown_entry =
  bd_slab :: slab_label
  bd_rate :: real
  bd_taxable_amount :: real
  bd_tax :: real

record tax_result =
  taxable_income :: real
  gross_tax :: real
  rebate_87a :: real
  tax_after_rebate :: real
  surcharge :: real
  cess :: real
  stcg_tax :: real
  ltcg_tax :: real
  total_tax :: real
  advance_tax_required :: bool
  tax_breakdown :: "breakdown_entry list"

text \<open>The income details are a dictionary from field names to amounts.\<close>

type_synonym income_details = "string \<rightharpoonup> real"

text \<open>\<open>d.get(k, 0)\<close>: the value stored under \<open>k\<close>, and 0 when the key is absent.\<close>

definition get_or_zero :: "income_details \<Rightarrow> string \<Rightarrow> real" where
  "get_or_zero d k = (case d k of None \<Rightarrow> 0 | Some v \<Rightarrow> v)"

subsection \<open>get\_tax\_slabs\<close>

text \<open>The dictionary returned for the key \<open>FY 2024-25 / AY 2025-26\<close>.\<close>

definition config_2024 :: tax_config where
  "config_2024 =
     \<lparr> slabs =
         [(0, Upto 300000, 0),
          (300000, Upto 700000, 0.05),
          (700000, Upto 1000000, 0.10),
          (1000000, Upto 1200000, 0.15),
          (1200000, Upto 1500000, 0.20),
          (1500000, Unbounded, 0.30)],
       standard_deduction = 75000,
       rebate_limit = 700000,
       rebate_max = 25000,
       advance_tax_threshold = 10000 \<rparr>"

text \<open>The dictionary returned for the key \<open>FY 2025-26 / AY 2026-27\<close>.\<close>

definition config_2025 :: tax_config where
  "config_2025 =
     \<lparr> slabs =
         [(0, Upto 400000, 0),
          (400000, Upto 700000, 0.05),
          (700000, Upto 1000000, 0.10),
          (1000000, Upto 1200000, 0.15),
          (1200000, Upto 1500000, 0.20),
          (1500000, Unbounded, 0.30)],
       standard_deduction = 75000,
       rebate_limit = 1200000,
       rebate_max = 60000,
       advance_tax_threshold = 10000 \<rparr>"

text \<open>
  An \<open>if\<close>/\<open>elif\<close> without \<open>else\<close>: for any other key the function falls off its end
  and returns Python's \<open>None\<close>, which is the \<open>None\<close> of the option type here.
\<close>

definition get_tax_slabs :: "string \<Rightarrow> tax_config option" where
  "get_tax_slabs fy_ay =
     (if fy_ay = ''FY 2024-25 / AY 2025-26'' then Some config_2024
      else if fy_ay = ''FY 2025-26 / AY 2026-27'' then Some config_2025
      else None)"

subsection \<open>calculate\_income\_tax\<close>

text \<open>\<open>min(taxable_income, upper)\<close>, where \<open>upper\<close> may be infinite.\<close>

fun min_upper :: "real \<Rightarrow> upper_bound \<Rightarrow> real" where
  "min_upper t (Upto u) = min t u"
| "min_upper t Unbounded = t"

fun label_of :: "real \<Rightarrow> upper_bound \<Rightarrow> slab_label" where
  "label_of lower (Upto u) = Between lower u"
| "label_of lower Unbounded = Above lower"

text \<open>
  The \<open>for\<close> loop over the slabs, with the running \<open>tax\<close> and \<open>tax_breakdown\<close> as
  accumulators. The \<open>break\<close> leaves the loop at the first slab whose lower bound the
  income does not exceed.
\<close>

fun slab_loop ::
  "real \<Rightarrow> slab_rule list \<Rightarrow> real \<Rightarrow> breakdown_entry list \<Rightarrow> real \<times> breakdown_entry list"
where
  "slab_loop t [] acc bd = (acc, bd)"
| "slab_loop t ((lower, upper, rate) # rest) acc bd =
     (if t \<le> lower then (acc, bd)
      else
        let taxable_in_slab = min_upper t upper - lower;
            slab_tax = taxable_in_slab * rate
        in slab_loop t rest (acc + slab_tax)
             (if slab_tax > 0
              then bd @ [\<lparr> bd_slab = label_of lower upper, bd_rate = rate * 100,
                            bd_taxable_amount = taxable_in_slab, bd_tax = slab_tax \<rparr>]
              else bd))"

text \<open>
  The parameter \<open>age_group\<close> of the source has a default and is read nowhere; it is left
  out. Subscripting the \<open>None\<close> of an unknown key raises \<open>TypeError\<close>.
\<close>

definition calculate_income_tax ::
  "real \<Rightarrow> string \<Rightarrow> py_error + (real \<times> breakdown_entry list)" where
  "calculate_income_tax t fy_ay =
     (case get_tax_slabs fy_ay of
        None \<Rightarrow> Inl TypeError
      | Some config \<Rightarrow> Inr (slab_loop t (slabs config) 0 []))"

subsection \<open>calculate\_rebate\_87a\<close>

definition calculate_rebate_87a :: "real \<Rightarrow> real \<Rightarrow> string \<Rightarrow> py_error + real" where
  "calculate_rebate_87a g t fy_ay =
     (case get_tax_slabs fy_ay of
        None \<Rightarrow> Inl TypeError
      | Some config \<Rightarrow>
          Inr (if t \<le> rebate_limit config then min g (rebate_max config) else 0))"

subsection \<open>calculate\_cess\_and\_surcharge\<close>

text \<open>
  The surcharge is selected by nested comparisons of the taxable income; the cess is
  taken on the tax after rebate together with the surcharge.
\<close>

definition calculate_cess_and_surcharge :: "real \<Rightarrow> real \<Rightarrow> real \<times> real" where
  "calculate_cess_and_surcharge r t =
     (let s = (if t > 5000000 then
                 (if t \<le> 10000000 then r * 0.10
                  else if t \<le> 20000000 then r * 0.15
                  else if t \<le> 50000000 then r * 0.25
                  else r * 0.37)
               else 0);
          c = (r + s) * 0.04
      in (s, c))"

subsection \<open>calculate\_capital\_gains\_tax\<close>

definition calculate_capital_gains_tax :: "real \<Rightarrow> real \<Rightarrow> real \<times> real" where
  "calculate_capital_gains_tax stcg ltcg =
     (stcg * 0.15, max 0 (ltcg - 100000) * 0.10)"

subsection \<open>compute\_total\_tax\_liability\<close>

text \<open>
  The first block of the function: the taxable income by employment type. Only the
  salaried branch reads the configuration, so only there an unknown key fails at this
  point. An employment type outside the four branches leaves the initial 0.
\<close>

definition derive_taxable_income ::
  "income_details \<Rightarrow> string \<Rightarrow> string \<Rightarrow> py_error + real" where
  "derive_taxable_income d fy_ay employment_type =
     (if employment_type = ''Salaried'' then
        (let gross_salary = get_or_zero d ''basic_salary'' + get_or_zero d ''hra''
                            + get_or_zero d ''bonus''
         in case get_tax_slabs fy_ay of
              None \<Rightarrow> Inl TypeError
            | Some config \<Rightarrow> Inr (max 0 (gross_salary - standard_deduction config)))
      else if employment_type = ''Rental'' then
        (let rental_income = get_or_zero d ''rent_received'' - get_or_zero d ''municipal_tax''
                             - get_or_zero d ''interest_paid''
         in Inr (max 0 rental_income))
      else if employment_type \<in> set [''Freelancer'', ''Business''] then
        Inr (get_or_zero d ''net_profit'')
      else if employment_type = ''Investor'' then
        (let other_income = get_or_zero d ''dividends'' + get_or_zero d ''interest_income''
         in Inr other_income)
      else Inr 0)"

definition compute_total_tax_liability ::
  "income_details \<Rightarrow> string \<Rightarrow> string \<Rightarrow> py_error + tax_result" where
  "compute_total_tax_liability d fy_ay employment_type =
     (case derive_taxable_income d fy_ay employment_type of
        Inl e \<Rightarrow> Inl e
      | Inr t \<Rightarrow>
     (case calculate_income_tax t fy_ay of
        Inl e \<Rightarrow> Inl e
      | Inr (g, breakdown) \<Rightarrow>
     (case calculate_rebate_87a g t fy_ay of
        Inl e \<Rightarrow> Inl e
      | Inr rebate \<Rightarrow>
     (let after_rebate = g - rebate;
          (s, c) = calculate_cess_and_surcharge after_rebate t;
          (st, lt) = calculate_capital_gains_tax (get_or_zero d ''stcg'') (get_or_zero d ''ltcg'');
          total = after_rebate + s + c + st + lt
      in case get_tax_slabs fy_ay of
           None \<Rightarrow> Inl TypeError
         | Some config \<Rightarrow>
             Inr \<lparr> taxable_income = t, gross_tax = g, rebate_87a = rebate,
                   tax_after_rebate = after_rebate, surcharge = s, cess = c,
                   stcg_tax = st, ltcg_tax = lt, total_tax = total,
                   advance_tax_required = (total > advance_tax_threshold config),
                   tax_breakdown = breakdown \<rparr>))))"

subsection \<open>The reference formula of the specification\<close>

text \<open>
  The specification gives the gross tax as a sum over all slabs of
  \<open>max(0, min(taxableIncome, upper) - lower) * rate\<close>. The two definitions below follow
  these words, not the loop; the loop is compared with them.
\<close>

fun slab_contribution :: "real \<Rightarrow> slab_rule \<Rightarrow> real" where
  "slab_contribution t (lower, upper, rate) = max 0 (min_upper t upper - lower) * rate"

definition spec_slab_tax :: "real \<Rightarrow> slab_rule list \<Rightarrow> real" where
  "spec_slab_tax t rules = (\<Sum>s\<leftarrow>rules. slab_contribution t s)"

text \<open>
  A slab is fully used at an income when its contribution there is its whole width times
  its rate. The unbounded slab has no whole width and is never fully used.
\<close>

fun fully_used :: "real \<Rightarrow> slab_rule \<Rightarrow> bool" where
  "fully_used t (lower, Upto u, rate) =
     (slab_contribution t (lower, Upto u, rate) = (u - lower) * rate)"
| "fully_used t (lower, Unbounded, rate) = False"

text \<open>
  The order the loop relies on: no slab ends below its start, and no later slab starts
  below an earlier one.
\<close>

fun le_upper :: "real \<Rightarrow> upper_bound \<Rightarrow> bool" where
  "le_upper x (Upto u) = (x \<le> u)"
| "le_upper x Unbounded = True"

fun slabs_ordered :: "slab_rule list \<Rightarrow> bool" where
  "slabs_ordered [] = True"
| "slabs_ordered ((lower, upper, rate) # rest) =
     (le_upper lower upper \<and> (\<forall>s\<in>set rest. lower \<le> fst s) \<and> slabs_ordered rest)"

section \<open>The loop and the reference formula\<close>

lemma spec_slab_tax_Nil [simp]: "spec_slab_tax t [] = 0"
  by (simp add: spec_slab_tax_def)

lemma spec_slab_tax_Cons [simp]:
  "spec_slab_tax t (s # rules) = slab_contribution t s + spec_slab_tax t rules"
  by (simp add: spec_slab_tax_def)

lemma spec_slab_tax_append:
  "spec_slab_tax t (xs @ ys) = spec_slab_tax t xs + spec_slab_tax t ys"
  by (simp add: spec_slab_tax_def)

lemma min_upper_le: "min_upper t u \<le> t"
  by (cases u) simp_all

lemma min_upper_ge: "lower < t \<Longrightarrow> le_upper lower u \<Longrightarrow> lower \<le> min_upper t u"
  by (cases u) simp_all

text \<open>A slab whose lower bound the income does not exceed contributes nothing.\<close>

lemma contribution_exhausted: "t \<le> fst s \<Longrightarrow> slab_contribution t s = 0"
proof (cases s)
  case (fields lower upper rate)
  assume "t \<le> fst s"
  with fields have "min_upper t upper - lower \<le> 0"
    using min_upper_le [of t upper] by simp
  with fields show ?thesis by (simp add: max_def)
qed

lemma spec_slab_tax_exhausted:
  "\<forall>s\<in>set rules. t \<le> fst s \<Longrightarrow> spec_slab_tax t rules = 0"
  by (induction rules) (simp_all add: contribution_exhausted)

text \<open>
  On ordered slabs the loop adds to its accumulator exactly the reference sum: where it
  breaks, every remaining slab contributes 0, and where it goes on, the amount in the
  slab is not negative, so the \<open>max\<close> of the formula changes nothing.
\<close>

lemma slab_loop_tax:
  "slabs_ordered rules \<Longrightarrow> fst (slab_loop t rules acc bd) = acc + spec_slab_tax t rules"
proof (induction rules arbitrary: acc bd)
  case Nil
  show ?case by simp
next
  case (Cons s rules)
  obtain lower upper rate where s: "s = (lower, upper, rate)"
    by (cases s)
  from Cons.prems s have up: "le_upper lower upper"
    and later: "\<forall>x\<in>set rules. lower \<le> fst x" and ord: "slabs_ordered rules"
    by simp_all
  show ?case
  proof (cases "t \<le> lower")
    case True
    then have "\<forall>x\<in>set (s # rules). t \<le> fst x"
      using later s by auto
    then have "spec_slab_tax t (s # rules) = 0"
      by (rule spec_slab_tax_exhausted)
    with True s show ?thesis by simp
  next
    case False
    then have "lower \<le> min_upper t upper"
      using up by (simp add: min_upper_ge)
    then have m: "max 0 (min_upper t upper - lower) = min_upper t upper - lower"
      by simp
    show ?thesis
      using False Cons.IH [OF ord] by (simp add: s Let_def m)
  qed
qed

text \<open>Slabs that the income does not reach leave the loop's result as it is.\<close>

lemma loop_stops_before:
  "(\<forall>s\<in>set later. t \<le> fst s) \<Longrightarrow>
     slab_loop t (rules @ later) acc bd = slab_loop t rules acc bd"
proof (induction rules arbitrary: acc bd)
  case Nil
  then show ?case by (cases later) auto
next
  case (Cons s rules)
  then show ?case by (cases s) (simp add: Let_def)
qed

lemma contribution_nonneg: "0 \<le> snd (snd s) \<Longrightarrow> 0 \<le> slab_contribution t s"
  by (cases s) simp

lemma contribution_mono:
  "0 \<le> snd (snd s) \<Longrightarrow> t \<le> t' \<Longrightarrow> slab_contribution t s \<le> slab_contribution t' s"
proof (cases s)
  case (fields lower upper rate)
  assume "0 \<le> snd (snd s)" and "t \<le> t'"
  then have "min_upper t upper \<le> min_upper t' upper"
    by (cases upper) simp_all
  then have "max 0 (min_upper t upper - lower) \<le> max 0 (min_upper t' upper - lower)"
    by simp
  with fields \<open>0 \<le> snd (snd s)\<close> show ?thesis
    by (simp add: mult_right_mono)
qed

lemma spec_slab_tax_nonneg:
  "\<forall>s\<in>set rules. 0 \<le> snd (snd s) \<Longrightarrow> 0 \<le> spec_slab_tax t rules"
  by (induction rules) (simp_all add: contribution_nonneg)

lemma spec_slab_tax_mono:
  "\<forall>s\<in>set rules. 0 \<le> snd (snd s) \<Longrightarrow> t \<le> t' \<Longrightarrow>
     spec_slab_tax t rules \<le> spec_slab_tax t' rules"
  by (induction rules) (simp_all add: contribution_mono add_mono)

lemma contribution_continuous: "continuous_on A (\<lambda>t. slab_contribution t s)"
proof (cases s)
  case (fields lower upper rate)
  have "continuous_on A (\<lambda>t. min_upper t upper)"
    by (cases upper) (simp_all add: continuous_on_min)
  then have "continuous_on A (\<lambda>t. max 0 (min_upper t upper - lower) * rate)"
    by (intro continuous_intros)
  with fields show ?thesis by simp
qed

lemma spec_slab_tax_continuous: "continuous_on A (\<lambda>t. spec_slab_tax t rules)"
proof (induction rules)
  case Nil
  show ?case by simp
next
  case (Cons s rules)
  have "continuous_on A (\<lambda>t. slab_contribution t s + spec_slab_tax t rules)"
    by (intro continuous_on_add contribution_continuous Cons.IH)
  then show ?case by simp
qed

section \<open>The two supported years\<close>

lemma fy_2024: "get_tax_slabs ''FY 2024-25 / AY 2025-26'' = Some config_2024"
  by (simp add: get_tax_slabs_def)

lemma fy_2025: "get_tax_slabs ''FY 2025-26 / AY 2026-27'' = Some config_2025"
  by (simp add: get_tax_slabs_def)

lemma get_tax_slabs_Some:
  "get_tax_slabs fy_ay = Some config \<Longrightarrow> config = config_2024 \<or> config = config_2025"
  by (auto simp: get_tax_slabs_def split: if_splits)

lemma supported_slabs_ordered:
  "get_tax_slabs fy_ay = Some config \<Longrightarrow> slabs_ordered (slabs config)"
  by (auto simp: get_tax_slabs_def config_2024_def config_2025_def split: if_splits)

lemma supported_rates_nonneg:
  "get_tax_slabs fy_ay = Some config \<Longrightarrow> \<forall>s\<in>set (slabs config). 0 \<le> snd (snd s)"
  by (auto simp: get_tax_slabs_def config_2024_def config_2025_def split: if_splits)

lemma supported_tax:
  assumes "get_tax_slabs fy_ay = Some config"
  shows "calculate_income_tax t fy_ay
           = Inr (spec_slab_tax t (slabs config), snd (slab_loop t (slabs config) 0 []))"
proof -
  have "fst (slab_loop t (slabs config) 0 []) = spec_slab_tax t (slabs config)"
    using slab_loop_tax [OF supported_slabs_ordered [OF assms], of t 0 "[]"] by simp
  then have "slab_loop t (slabs config) 0 []
               = (spec_slab_tax t (slabs config), snd (slab_loop t (slabs config) 0 []))"
    by (metis prod.collapse)
  then show ?thesis
    by (simp add: calculate_income_tax_def assms)
qed

text \<open>At the upper bound of a slab: the slabs up to it are fully used, the later ones start at or above it.\<close>

lemma index_below_six:
  "i < (6::nat) \<Longrightarrow> i = 0 \<or> i = 1 \<or> i = 2 \<or> i = 3 \<or> i = 4 \<or> i = 5"
  by arith

lemma boundary_2024:
  assumes "i < length (slabs config_2024)" and "slabs config_2024 ! i = (l, Upto u, r)"
  shows "(\<forall>s\<in>set (take (Suc i) (slabs config_2024)). fully_used u s)
       \<and> (\<forall>s\<in>set (drop (Suc i) (slabs config_2024)). u \<le> fst s)"
proof -
  from assms(1) have "i < 6" by (simp add: config_2024_def)
  then have "i = 0 \<or> i = 1 \<or> i = 2 \<or> i = 3 \<or> i = 4 \<or> i = 5"
    by (rule index_below_six)
  then show ?thesis
    using assms(2) by (elim disjE) (simp_all add: config_2024_def)
qed

lemma boundary_2025:
  assumes "i < length (slabs config_2025)" and "slabs config_2025 ! i = (l, Upto u, r)"
  shows "(\<forall>s\<in>set (take (Suc i) (slabs config_2025)). fully_used u s)
       \<and> (\<forall>s\<in>set (drop (Suc i) (slabs config_2025)). u \<le> fst s)"
proof -
  from assms(1) have "i < 6" by (simp add: config_2025_def)
  then have "i = 0 \<or> i = 1 \<or> i = 2 \<or> i = 3 \<or> i = 4 \<or> i = 5"
    by (rule index_below_six)
  then show ?thesis
    using assms(2) by (elim disjE) (simp_all add: config_2025_def)
qed

lemma boundary_supported:
  assumes "get_tax_slabs fy_ay = Some config"
    and "i < length (slabs config)" and "slabs config ! i = (l, Upto u, r)"
  shows "(\<forall>s\<in>set (take (Suc i) (slabs config)). fully_used u s)
       \<and> (\<forall>s\<in>set (drop (Suc i) (slabs config)). u \<le> fst s)"
  using get_tax_slabs_Some [OF assms(1)] assms(2,3) boundary_2024 boundary_2025
  by blast

text \<open>
  The gross tax of each year as a sum of hinges, one per change of rate. Every
  coefficient is the rise of the rate at that boundary, and none is negative.
\<close>

lemma hinge_increments:
  fixes b :: real
  assumes "t1 \<le> t2" and "0 \<le> h"
  shows "max 0 (t1 + h - b) - max 0 (t1 - b) \<le> max 0 (t2 + h - b) - max 0 (t2 - b)"
  using assms by (auto simp: max_def)

lemma tax_2024_hinges:
  "spec_slab_tax t (slabs config_2024)
     = 5 / 100 * max 0 (t - 300000) + 5 / 100 * max 0 (t - 700000)
       + 5 / 100 * max 0 (t - 1000000) + 5 / 100 * max 0 (t - 1200000)
       + 10 / 100 * max 0 (t - 1500000)"
  by (simp add: config_2024_def min_def max_def) argo

lemma tax_2025_hinges:
  "spec_slab_tax t (slabs config_2025)
     = 5 / 100 * max 0 (t - 400000) + 5 / 100 * max 0 (t - 700000)
       + 5 / 100 * max 0 (t - 1000000) + 5 / 100 * max 0 (t - 1200000)
       + 10 / 100 * max 0 (t - 1500000)"
  by (simp add: config_2025_def min_def max_def) argo

lemma tax_2024_convex:
  assumes "t1 \<le> t2" and "0 \<le> h"
  shows "spec_slab_tax (t1 + h) (slabs config_2024) - spec_slab_tax t1 (slabs config_2024)
       \<le> spec_slab_tax (t2 + h) (slabs config_2024) - spec_slab_tax t2 (slabs config_2024)"
  unfolding tax_2024_hinges
  using hinge_increments [OF assms, of 300000] hinge_increments [OF assms, of 700000]
    hinge_increments [OF assms, of 1000000] hinge_increments [OF assms, of 1200000]
    hinge_increments [OF assms, of 1500000]
  by linarith

lemma tax_2025_convex:
  assumes "t1 \<le> t2" and "0 \<le> h"
  shows "spec_slab_tax (t1 + h) (slabs config_2025) - spec_slab_tax t1 (slabs config_2025)
       \<le> spec_slab_tax (t2 + h) (slabs config_2025) - spec_slab_tax t2 (slabs config_2025)"
  unfolding tax_2025_hinges
  using hinge_increments [OF assms, of 400000] hinge_increments [OF assms, of 700000]
    hinge_increments [OF assms, of 1000000] hinge_increments [OF assms, of 1200000]
    hinge_increments [OF assms, of 1500000]
  by linarith

lemma slope_2024:
  "\<forall>(l, u, r)\<in>set (slabs config_2024). \<forall>t t'. l \<le> t \<and> t \<le> t' \<and> le_upper t' u \<longrightarrow>
      spec_slab_tax t' (slabs config_2024) - spec_slab_tax t (slabs config_2024)
        = r * (t' - t)"
  unfolding tax_2024_hinges
  by (auto simp: config_2024_def max_def; argo)

lemma slope_2025:
  "\<forall>(l, u, r)\<in>set (slabs config_2025). \<forall>t t'. l \<le> t \<and> t \<le> t' \<and> le_upper t' u \<longrightarrow>
      spec_slab_tax t' (slabs config_2025) - spec_slab_tax t (slabs config_2025)
        = r * (t' - t)"
  unfolding tax_2025_hinges
  by (auto simp: config_2025_def max_def; argo)

lemma rates_sorted:
  "sorted (map (\<lambda>(l, u, r). r) (slabs config_2024))"
  "sorted (map (\<lambda>(l, u, r). r) (slabs config_2025))"
  by (simp_all add: config_2024_def config_2025_def)

section \<open>The pipeline\<close>

lemma get_or_zero_nonneg:
  "\<forall>k v. d k = Some v \<longrightarrow> 0 \<le> v \<Longrightarrow> 0 \<le> get_or_zero d k"
  by (simp add: get_or_zero_def split: option.splits)

lemma derive_supported:
  "get_tax_slabs fy_ay = Some config \<Longrightarrow> \<exists>t. derive_taxable_income d fy_ay et = Inr t"
  by (simp add: derive_taxable_income_def Let_def)

text \<open>For a supported year the pipeline returns a result.\<close>

lemma compute_total_returns:
  assumes "get_tax_slabs fy_ay = Some config"
  shows "\<exists>res. compute_total_tax_liability d fy_ay et = Inr res"
proof -
  obtain t where t: "derive_taxable_income d fy_ay et = Inr t"
    using derive_supported [OF assms] by blast
  show ?thesis
    by (simp add: compute_total_tax_liability_def t supported_tax [OF assms]
          calculate_rebate_87a_def assms Let_def split: prod.splits)
qed

text \<open>Every field of a returned result, by the call that made it.\<close>

lemma compute_total_fields:
  assumes "compute_total_tax_liability d fy_ay et = Inr res"
  shows "\<exists>config. get_tax_slabs fy_ay = Some config
     \<and> derive_taxable_income d fy_ay et = Inr (taxable_income res)
     \<and> calculate_income_tax (taxable_income res) fy_ay = Inr (gross_tax res, tax_breakdown res)
     \<and> calculate_rebate_87a (gross_tax res) (taxable_income res) fy_ay = Inr (rebate_87a res)
     \<and> tax_after_rebate res = gross_tax res - rebate_87a res
     \<and> calculate_cess_and_surcharge (tax_after_rebate res) (taxable_income res)
           = (surcharge res, cess res)
     \<and> calculate_capital_gains_tax (get_or_zero d ''stcg'') (get_or_zero d ''ltcg'')
           = (stcg_tax res, ltcg_tax res)
     \<and> total_tax res
           = tax_after_rebate res + surcharge res + cess res + stcg_tax res + ltcg_tax res
     \<and> advance_tax_required res = (total_tax res > advance_tax_threshold config)"
  using assms
  by (auto simp: compute_total_tax_liability_def Let_def
        split: sum.splits option.splits prod.splits)

lemma result_gross_tax:
  assumes "compute_total_tax_liability d fy_ay et = Inr res"
    and "get_tax_slabs fy_ay = Some config"
  shows "gross_tax res = spec_slab_tax (taxable_income res) (slabs config)"
  using compute_total_fields [OF assms(1)] supported_tax [OF assms(2), of "taxable_income res"]
  by auto

lemma result_rebate:
  assumes "compute_total_tax_liability d fy_ay et = Inr res"
    and "get_tax_slabs fy_ay = Some config"
  shows "rebate_87a res
           = (if taxable_income res \<le> rebate_limit config
              then min (gross_tax res) (rebate_max config) else 0)"
  using compute_total_fields [OF assms(1)] assms(2)
  by (auto simp: calculate_rebate_87a_def)

section \<open>Unsupported fiscal years\<close>

text \<open>
  Claim C1, as the code has it. For every fiscal-year key other than the two supported
  ones, \<open>get_tax_slabs\<close> raises nothing: it returns \<open>None\<close>. Every function that
  subscripts that value then fails with \<open>TypeError\<close>: \<open>calculate_income_tax\<close>,
  \<open>calculate_rebate_87a\<close> and \<open>compute_total_tax_liability\<close>, for every income,
  every dictionary and every employment type. So no result record is produced and no
  other year's rules are used.
\<close>

theorem unsupported_year_fails:
  assumes "fy_ay \<noteq> ''FY 2024-25 / AY 2025-26''"
    and "fy_ay \<noteq> ''FY 2025-26 / AY 2026-27''"
  shows "get_tax_slabs fy_ay = None
       \<and> calculate_income_tax t fy_ay = Inl TypeError
       \<and> calculate_rebate_87a g t fy_ay = Inl TypeError
       \<and> compute_total_tax_liability d fy_ay employment_type = Inl TypeError"
proof -
  have n: "get_tax_slabs fy_ay = None"
    using assms by (simp add: get_tax_slabs_def)
  have i: "calculate_income_tax x fy_ay = Inl TypeError" for x
    by (simp add: calculate_income_tax_def n)
  have r: "calculate_rebate_87a g t fy_ay = Inl TypeError"
    by (simp add: calculate_rebate_87a_def n)
  have c: "compute_total_tax_liability d fy_ay employment_type = Inl TypeError"
    by (simp add: compute_total_tax_liability_def derive_taxable_income_def n i Let_def
          split: sum.splits)
  from n i r c show ?thesis by simp
qed

theorem unsupported_year_fails_witness:
  "get_tax_slabs ''FY 1999-00'' = None
   \<and> calculate_income_tax 500000 ''FY 1999-00'' = Inl TypeError
   \<and> calculate_rebate_87a 0 500000 ''FY 1999-00'' = Inl TypeError
   \<and> compute_total_tax_liability Map.empty ''FY 1999-00'' ''Investor'' = Inl TypeError"
  using unsupported_year_fails [of "''FY 1999-00''" 500000 0 Map.empty "''Investor''"]
  by simp

text \<open>
  The claim as the specification words it names the error \<open>UnsupportedFiscalYear\<close>.
  At the key \<open>FY 1999-00\<close> the failure of the code is another one.
\<close>

theorem unsupported_year_error_counterexample:
  "compute_total_tax_liability Map.empty ''FY 1999-00'' ''Salaried''
     \<noteq> Inl UnsupportedFiscalYear"
  by (simp add: compute_total_tax_liability_def derive_taxable_income_def get_tax_slabs_def)

section \<open>The slab loop against the reference formula\<close>

text \<open>
  Claim C2. For every supported fiscal year and every taxable income (so for every
  non-negative one), the gross tax that \<open>calculate_income_tax\<close> returns from its loop
  with \<open>break\<close> is the reference sum over all slabs of
  \<open>max(0, min(T, upper) - lower) * rate\<close>. When the income equals the upper bound of a
  slab, the loop gives what it gives on the slabs up to that one alone, the tax is the
  sum of their contributions, each of them is fully used, and the next slab and every
  later one contribute 0.
\<close>

theorem slab_tax_refines_spec:
  assumes cfg: "get_tax_slabs fy_ay = Some config"
  shows "(\<forall>t. \<exists>bd. calculate_income_tax t fy_ay = Inr (spec_slab_tax t (slabs config), bd))
       \<and> (\<forall>i l u r. i < length (slabs config) \<and> slabs config ! i = (l, Upto u, r) \<longrightarrow>
             calculate_income_tax u fy_ay
               = Inr (slab_loop u (take (Suc i) (slabs config)) 0 [])
           \<and> fst (slab_loop u (slabs config) 0 [])
               = spec_slab_tax u (take (Suc i) (slabs config))
           \<and> (\<forall>s\<in>set (take (Suc i) (slabs config)). fully_used u s)
           \<and> (\<forall>s\<in>set (drop (Suc i) (slabs config)). slab_contribution u s = 0))"
proof (intro conjI allI impI)
  fix t
  show "\<exists>bd. calculate_income_tax t fy_ay = Inr (spec_slab_tax t (slabs config), bd)"
    using supported_tax [OF cfg] by blast
next
  fix i l u r
  assume "i < length (slabs config) \<and> slabs config ! i = (l, Upto u, r)"
  then have used: "\<forall>s\<in>set (take (Suc i) (slabs config)). fully_used u s"
    and later: "\<forall>s\<in>set (drop (Suc i) (slabs config)). u \<le> fst s"
    using boundary_supported [OF cfg] by blast+
  have "slab_loop u (take (Suc i) (slabs config) @ drop (Suc i) (slabs config)) 0 []
          = slab_loop u (take (Suc i) (slabs config)) 0 []"
    using later by (rule loop_stops_before)
  then have stop:
    "slab_loop u (slabs config) 0 [] = slab_loop u (take (Suc i) (slabs config)) 0 []"
    by simp
  show "calculate_income_tax u fy_ay = Inr (slab_loop u (take (Suc i) (slabs config)) 0 [])"
    by (simp add: calculate_income_tax_def cfg stop)
  have "spec_slab_tax u (slabs config)
          = spec_slab_tax u (take (Suc i) (slabs config))
            + spec_slab_tax u (drop (Suc i) (slabs config))"
    using spec_slab_tax_append [of u "take (Suc i) (slabs config)" "drop (Suc i) (slabs config)"]
    by simp
  moreover have "spec_slab_tax u (drop (Suc i) (slabs config)) = 0"
    using later by (rule spec_slab_tax_exhausted)
  moreover have "fst (slab_loop u (slabs config) 0 []) = spec_slab_tax u (slabs config)"
    using slab_loop_tax [OF supported_slabs_ordered [OF cfg], of u 0 "[]"] by simp
  ultimately show "fst (slab_loop u (slabs config) 0 [])
                     = spec_slab_tax u (take (Suc i) (slabs config))"
    by simp
  show "\<forall>s\<in>set (take (Suc i) (slabs config)). fully_used u s"
    by (rule used)
  show "\<forall>s\<in>set (drop (Suc i) (slabs config)). slab_contribution u s = 0"
    using later by (simp add: contribution_exhausted)
qed

text \<open>
  At the year 2025-26: an income of 525000 is taxed 6250, and at 1200000, the upper
  bound of the fourth slab, the tax is 0 + 15000 + 30000 + 30000 with nothing from the
  fifth slab.
\<close>

theorem slab_tax_refines_spec_witness:
  "get_tax_slabs ''FY 2025-26 / AY 2026-27'' = Some config_2025
   \<and> (\<exists>bd. calculate_income_tax 525000 ''FY 2025-26 / AY 2026-27'' = Inr (6250, bd))
   \<and> (3 < length (slabs config_2025)
       \<and> slabs config_2025 ! 3 = (1000000, Upto 1200000, 0.15))
   \<and> calculate_income_tax 1200000 ''FY 2025-26 / AY 2026-27''
       = Inr (slab_loop 1200000 (take 4 (slabs config_2025)) 0 [])
   \<and> fst (slab_loop 1200000 (slabs config_2025) 0 []) = 0 + 15000 + 30000 + 30000
   \<and> fully_used 1200000 (1000000, Upto 1200000, 0.15)
   \<and> slab_contribution 1200000 (1200000, Upto 1500000, 0.20) = 0"
proof -
  note main = slab_tax_refines_spec [OF fy_2025]
  have h: "3 < length (slabs config_2025)
           \<and> slabs config_2025 ! 3 = (1000000, Upto 1200000, 0.15)"
    by (simp add: config_2025_def)
  from main have "\<exists>bd. calculate_income_tax 525000 ''FY 2025-26 / AY 2026-27''
                     = Inr (spec_slab_tax 525000 (slabs config_2025), bd)"
    by blast
  moreover have "spec_slab_tax 525000 (slabs config_2025) = 6250"
    by (simp add: config_2025_def)
  ultimately have a: "\<exists>bd. calculate_income_tax 525000 ''FY 2025-26 / AY 2026-27''
                     = Inr (6250, bd)"
    by simp
  from main h have b: "calculate_income_tax 1200000 ''FY 2025-26 / AY 2026-27''
               = Inr (slab_loop 1200000 (take (Suc 3) (slabs config_2025)) 0 [])
           \<and> fst (slab_loop 1200000 (slabs config_2025) 0 [])
               = spec_slab_tax 1200000 (take (Suc 3) (slabs config_2025))
           \<and> (\<forall>s\<in>set (take (Suc 3) (slabs config_2025)). fully_used 1200000 s)
           \<and> (\<forall>s\<in>set (drop (Suc 3) (slabs config_2025)). slab_contribution 1200000 s = 0)"
    by blast
  have t4: "take (Suc 3) (slabs config_2025)
              = [(0, Upto 400000, 0), (400000, Upto 700000, 0.05),
                 (700000, Upto 1000000, 0.10), (1000000, Upto 1200000, 0.15)]"
    and d4: "drop (Suc 3) (slabs config_2025)
              = [(1200000, Upto 1500000, 0.20), (1500000, Unbounded, 0.30)]"
    by (simp_all add: config_2025_def)
  have s4: "Suc 3 = 4" by simp
  from b show ?thesis
    using fy_2025 a h unfolding t4 d4 by (simp add: s4 t4 [unfolded s4])
qed

section \<open>The rebate under Section 87A\<close>

text \<open>
  Claim C3. For every gross tax and taxable income, the rebate is the smaller of the
  gross tax and the year's rebate cap when the income is at most the year's ceiling, and
  0 above it. In the year 2025-26 the ceiling is 1200000 and the cap 60000: at 1200000
  the rebate is the smaller of the gross tax and 60000, at 1200001 it is 0. In every
  result of that year the tax after rebate is 15000 when the taxable income is 1200000
  and at least 75000 when it is anything above: a jump of 60000 at the ceiling.
\<close>

theorem rebate_87a_cliff:
  assumes cfg: "get_tax_slabs fy_ay = Some config"
  shows "calculate_rebate_87a g t fy_ay
           = Inr (if t \<le> rebate_limit config then min g (rebate_max config) else 0)
       \<and> (fy_ay = ''FY 2025-26 / AY 2026-27'' \<longrightarrow>
             rebate_limit config = 1200000 \<and> rebate_max config = 60000
           \<and> calculate_rebate_87a g 1200000 fy_ay = Inr (min g 60000)
           \<and> calculate_rebate_87a g 1200001 fy_ay = Inr 0
           \<and> (\<forall>d et res. compute_total_tax_liability d fy_ay et = Inr res \<longrightarrow>
                  (taxable_income res = 1200000 \<longrightarrow> tax_after_rebate res = 15000)
                \<and> (1200000 < taxable_income res \<longrightarrow> 75000 \<le> tax_after_rebate res)))"
proof (intro conjI impI allI)
  show "calculate_rebate_87a g t fy_ay
           = Inr (if t \<le> rebate_limit config then min g (rebate_max config) else 0)"
    by (simp add: calculate_rebate_87a_def cfg)
next
  assume fy: "fy_ay = ''FY 2025-26 / AY 2026-27''"
  with cfg have c: "config = config_2025"
    by (simp add: get_tax_slabs_def)
  show "rebate_limit config = 1200000" and "rebate_max config = 60000"
    by (simp_all add: c config_2025_def)
  show "calculate_rebate_87a g 1200000 fy_ay = Inr (min g 60000)"
    by (simp add: calculate_rebate_87a_def cfg c config_2025_def)
  show "calculate_rebate_87a g 1200001 fy_ay = Inr 0"
    by (simp add: calculate_rebate_87a_def cfg c config_2025_def)
  have at_ceiling: "spec_slab_tax 1200000 (slabs config_2025) = 75000"
    by (simp add: config_2025_def)
  fix d et res
  assume res: "compute_total_tax_liability d fy_ay et = Inr res"
  have g: "gross_tax res = spec_slab_tax (taxable_income res) (slabs config_2025)"
    using result_gross_tax [OF res cfg] c by simp
  have rb: "rebate_87a res
              = (if taxable_income res \<le> 1200000 then min (gross_tax res) 60000 else 0)"
    using result_rebate [OF res cfg] by (simp add: c config_2025_def)
  have after: "tax_after_rebate res = gross_tax res - rebate_87a res"
    using compute_total_fields [OF res] by blast
  {
    assume "taxable_income res = 1200000"
    then show "tax_after_rebate res = 15000"
      using g rb after at_ceiling by simp
  }
  {
    assume above: "1200000 < taxable_income res"
    then have "spec_slab_tax 1200000 (slabs config_2025)
                 \<le> spec_slab_tax (taxable_income res) (slabs config_2025)"
      using spec_slab_tax_mono [OF supported_rates_nonneg [OF fy_2025]] by simp
    then show "75000 \<le> tax_after_rebate res"
      using above g rb after at_ceiling by simp
  }
qed

text \<open>The two sides of the ceiling, for an investor with dividends only.\<close>

theorem rebate_87a_cliff_witness:
  "get_tax_slabs ''FY 2025-26 / AY 2026-27'' = Some config_2025
   \<and> calculate_rebate_87a 75000 1200000 ''FY 2025-26 / AY 2026-27'' = Inr 60000
   \<and> calculate_rebate_87a 75000.2 1200001 ''FY 2025-26 / AY 2026-27'' = Inr 0
   \<and> (\<exists>res. compute_total_tax_liability [''dividends'' \<mapsto> 1200001]
                ''FY 2025-26 / AY 2026-27'' ''Investor'' = Inr res
            \<and> taxable_income res = 1200001 \<and> 75000 \<le> tax_after_rebate res)
   \<and> (\<exists>res. compute_total_tax_liability [''dividends'' \<mapsto> 1200000]
                ''FY 2025-26 / AY 2026-27'' ''Investor'' = Inr res
            \<and> taxable_income res = 1200000 \<and> tax_after_rebate res = 15000)"
proof -
  note main = rebate_87a_cliff [OF fy_2025]
  have a: "calculate_rebate_87a 75000 1200000 ''FY 2025-26 / AY 2026-27'' = Inr 60000"
    using main [of 75000 1200000] by simp
  have b: "calculate_rebate_87a 75000.2 1200001 ''FY 2025-26 / AY 2026-27'' = Inr 0"
    using main [of "75000.2" 1200001] by simp
  obtain r1 where r1: "compute_total_tax_liability [''dividends'' \<mapsto> 1200001]
                ''FY 2025-26 / AY 2026-27'' ''Investor'' = Inr r1"
    using compute_total_returns [OF fy_2025] by blast
  have t1: "taxable_income r1 = 1200001"
    using compute_total_fields [OF r1]
    by (auto simp: derive_taxable_income_def get_or_zero_def)
  obtain r0 where r0: "compute_total_tax_liability [''dividends'' \<mapsto> 1200000]
                ''FY 2025-26 / AY 2026-27'' ''Investor'' = Inr r0"
    using compute_total_returns [OF fy_2025] by blast
  have t0: "taxable_income r0 = 1200000"
    using compute_total_fields [OF r0]
    by (auto simp: derive_taxable_income_def get_or_zero_def)
  have "75000 \<le> tax_after_rebate r1"
    using main [of 0 0] r1 t1 by simp
  moreover have "tax_after_rebate r0 = 15000"
    using main [of 0 0] r0 t0 by simp
  ultimately show ?thesis
    using fy_2025 a b r1 t1 r0 t0 by simp
qed

section \<open>Surcharge and cess\<close>

text \<open>
  Claim C4. For every tax after rebate \<open>r\<close> and taxable income \<open>t\<close>, the surcharge is a
  step function of \<open>t\<close>: 0 up to 50 lakh, then 10 percent of \<open>r\<close> up to 1 crore,
  15 percent up to 2 crore, 25 percent up to 5 crore and 37 percent above. The cess is
  4 percent of \<open>r\<close> plus the surcharge. For a non-negative \<open>r\<close> held fixed the surcharge
  never decreases when \<open>t\<close> grows.
\<close>

theorem surcharge_and_cess_rule:
  "fst (calculate_cess_and_surcharge r t)
     = (if t \<le> 5000000 then 0
        else if t \<le> 10000000 then 10 / 100 * r
        else if t \<le> 20000000 then 15 / 100 * r
        else if t \<le> 50000000 then 25 / 100 * r
        else 37 / 100 * r)
   \<and> snd (calculate_cess_and_surcharge r t)
       = 4 / 100 * (r + fst (calculate_cess_and_surcharge r t))
   \<and> (0 \<le> r \<and> t \<le> t' \<longrightarrow>
         fst (calculate_cess_and_surcharge r t) \<le> fst (calculate_cess_and_surcharge r t'))"
  by (simp add: calculate_cess_and_surcharge_def Let_def)

text \<open>A tax after rebate of 1000000 on both sides of each threshold.\<close>

theorem surcharge_and_cess_rule_witness:
  "calculate_cess_and_surcharge 1000000 5000000 = (0, 40000)
   \<and> calculate_cess_and_surcharge 1000000 5000001 = (100000, 44000)
   \<and> calculate_cess_and_surcharge 1000000 10000000 = (100000, 44000)
   \<and> calculate_cess_and_surcharge 1000000 10000001 = (150000, 46000)
   \<and> calculate_cess_and_surcharge 1000000 20000001 = (250000, 50000)
   \<and> calculate_cess_and_surcharge 1000000 50000001 = (370000, 54800)
   \<and> ((0::real) \<le> 1000000 \<and> (5000000::real) \<le> 10000001)
   \<and> fst (calculate_cess_and_surcharge 1000000 5000000)
       \<le> fst (calculate_cess_and_surcharge 1000000 10000001)"
proof -
  have "fst (calculate_cess_and_surcharge 1000000 5000000)
       \<le> fst (calculate_cess_and_surcharge 1000000 10000001)"
    using surcharge_and_cess_rule [of 1000000 5000000 10000001] by simp
  then show ?thesis
    by (simp add: calculate_cess_and_surcharge_def Let_def)
qed

section \<open>Capital gains\<close>

text \<open>
  Claim C5. For all short-term and long-term gains (so for all non-negative ones), the
  short-term tax is 15 percent of the short-term gains and the long-term tax is
  10 percent of what the long-term gains exceed 100000 by, and 0 when they do not.
  Long-term gains of at most 100000 are taxed 0, and of 150000 are taxed 5000. In every
  result of the pipeline the two taxes are these functions of the two fields alone,
  whatever the year, the employment type and the slab tax.
\<close>

theorem capital_gains_rule:
  "calculate_capital_gains_tax stcg ltcg
     = (15 / 100 * stcg, 10 / 100 * max 0 (ltcg - 100000))
   \<and> (ltcg \<le> 100000 \<longrightarrow> snd (calculate_capital_gains_tax stcg ltcg) = 0)
   \<and> snd (calculate_capital_gains_tax stcg 150000) = 5000
   \<and> (\<forall>d fy_ay et res. compute_total_tax_liability d fy_ay et = Inr res \<longrightarrow>
          stcg_tax res = 15 / 100 * get_or_zero d ''stcg''
        \<and> ltcg_tax res = 10 / 100 * max 0 (get_or_zero d ''ltcg'' - 100000))"
proof (intro conjI impI allI)
  show "calculate_capital_gains_tax stcg ltcg
          = (15 / 100 * stcg, 10 / 100 * max 0 (ltcg - 100000))"
    by (simp add: calculate_capital_gains_tax_def)
  show "snd (calculate_capital_gains_tax stcg 150000) = 5000"
    by (simp add: calculate_capital_gains_tax_def)
next
  assume "ltcg \<le> 100000"
  then show "snd (calculate_capital_gains_tax stcg ltcg) = 0"
    by (simp add: calculate_capital_gains_tax_def max_def)
next
  fix d :: income_details and fy_ay et res
  assume res: "compute_total_tax_liability d fy_ay et = Inr res"
  from compute_total_fields [OF res]
  have "calculate_capital_gains_tax (get_or_zero d ''stcg'') (get_or_zero d ''ltcg'')
          = (stcg_tax res, ltcg_tax res)"
    by blast
  then show "stcg_tax res = 15 / 100 * get_or_zero d ''stcg''"
    and "ltcg_tax res = 10 / 100 * max 0 (get_or_zero d ''ltcg'' - 100000)"
    by (simp_all add: calculate_capital_gains_tax_def)
qed

text \<open>Long-term gains at the exemption, and an investor with long-term gains of 200000.\<close>

theorem capital_gains_rule_witness:
  "calculate_capital_gains_tax 200000 100000 = (30000, 0)
   \<and> (100000::real) \<le> 100000
   \<and> snd (calculate_capital_gains_tax 200000 100000) = 0
   \<and> (\<exists>res. compute_total_tax_liability [''dividends'' \<mapsto> 2000000, ''ltcg'' \<mapsto> 200000]
               ''FY 2025-26 / AY 2026-27'' ''Investor'' = Inr res
            \<and> stcg_tax res = 0 \<and> ltcg_tax res = 10000)"
proof -
  note main = capital_gains_rule [of 200000 100000]
  obtain res where res: "compute_total_tax_liability
       [''dividends'' \<mapsto> 2000000, ''ltcg'' \<mapsto> 200000]
       ''FY 2025-26 / AY 2026-27'' ''Investor'' = Inr res"
    using compute_total_returns [OF fy_2025] by blast
  with main have "stcg_tax res
         = 15 / 100 * get_or_zero [''dividends'' \<mapsto> 2000000, ''ltcg'' \<mapsto> 200000] ''stcg''
     \<and> ltcg_tax res
         = 10 / 100 * max 0 (get_or_zero [''dividends'' \<mapsto> 2000000, ''ltcg'' \<mapsto> 200000]
                               ''ltcg'' - 100000)"
    by blast
  then have "stcg_tax res = 0 \<and> ltcg_tax res = 10000"
    by (simp add: get_or_zero_def)
  with res main show ?thesis by simp
qed

section \<open>Taxable income\<close>

text \<open>
  Claim C6. For a supported year and income details whose amounts are all non-negative,
  the pipeline returns a result whose taxable income is computed from the entries of the
  dictionary, an absent entry counting as 0: for \<open>Salaried\<close>, basic salary plus HRA
  plus bonus minus the year's standard deduction, which is 75000, floored at 0; for
  \<open>Rental\<close>, rent received minus municipal tax minus interest paid, floored at 0; for
  \<open>Freelancer\<close> and \<open>Business\<close>, the net profit as it is; for \<open>Investor\<close>,
  dividends plus interest income; and 0 for \<open>Mixed\<close> and any other type. It is never
  negative.
\<close>

theorem taxable_income_by_employment_type:
  assumes cfg: "get_tax_slabs fy_ay = Some config"
    and nonneg: "\<forall>k v. d k = Some v \<longrightarrow> 0 \<le> v"
  shows "\<exists>res. compute_total_tax_liability d fy_ay et = Inr res
     \<and> standard_deduction config = 75000
     \<and> taxable_income res =
         (if et = ''Salaried'' then
            max 0 ((case d ''basic_salary'' of None \<Rightarrow> 0 | Some v \<Rightarrow> v)
                   + (case d ''hra'' of None \<Rightarrow> 0 | Some v \<Rightarrow> v)
                   + (case d ''bonus'' of None \<Rightarrow> 0 | Some v \<Rightarrow> v)
                   - standard_deduction config)
          else if et = ''Rental'' then
            max 0 ((case d ''rent_received'' of None \<Rightarrow> 0 | Some v \<Rightarrow> v)
                   - (case d ''municipal_tax'' of None \<Rightarrow> 0 | Some v \<Rightarrow> v)
                   - (case d ''interest_paid'' of None \<Rightarrow> 0 | Some v \<Rightarrow> v))
          else if et = ''Freelancer'' \<or> et = ''Business'' then
            (case d ''net_profit'' of None \<Rightarrow> 0 | Some v \<Rightarrow> v)
          else if et = ''Investor'' then
            (case d ''dividends'' of None \<Rightarrow> 0 | Some v \<Rightarrow> v)
            + (case d ''interest_income'' of None \<Rightarrow> 0 | Some v \<Rightarrow> v)
          else 0)
     \<and> (et = ''Mixed'' \<longrightarrow> taxable_income res = 0)
     \<and> 0 \<le> taxable_income res"
proof -
  obtain res where res: "compute_total_tax_liability d fy_ay et = Inr res"
    using compute_total_returns [OF cfg] by blast
  from compute_total_fields [OF res]
  have t: "derive_taxable_income d fy_ay et = Inr (taxable_income res)"
    by blast
  have sd: "standard_deduction config = 75000"
    using get_tax_slabs_Some [OF cfg] by (auto simp: config_2024_def config_2025_def)
  have np: "0 \<le> get_or_zero d ''net_profit''"
    and dv: "0 \<le> get_or_zero d ''dividends''"
    and ii: "0 \<le> get_or_zero d ''interest_income''"
    using nonneg by (simp_all add: get_or_zero_nonneg)
  from t have shape: "taxable_income res =
         (if et = ''Salaried'' then
            max 0 (get_or_zero d ''basic_salary'' + get_or_zero d ''hra''
                   + get_or_zero d ''bonus'' - standard_deduction config)
          else if et = ''Rental'' then
            max 0 (get_or_zero d ''rent_received'' - get_or_zero d ''municipal_tax''
                   - get_or_zero d ''interest_paid'')
          else if et = ''Freelancer'' \<or> et = ''Business'' then get_or_zero d ''net_profit''
          else if et = ''Investor'' then
            get_or_zero d ''dividends'' + get_or_zero d ''interest_income''
          else 0)"
    by (auto simp: derive_taxable_income_def cfg Let_def split: if_splits)
  then have mixed: "et = ''Mixed'' \<longrightarrow> taxable_income res = 0"
    by simp
  have pos: "0 \<le> taxable_income res"
    unfolding shape using np dv ii by simp
  from res sd shape [unfolded get_or_zero_def] mixed pos show ?thesis by blast
qed

text \<open>
  One profile for each employment type in the year 2024-25, with the taxable income it
  gives, and a salary below the standard deduction and a rental loss, both floored at 0.
\<close>

theorem taxable_income_by_employment_type_witness:
  "get_tax_slabs ''FY 2024-25 / AY 2025-26'' = Some config_2024
   \<and> (\<exists>res. compute_total_tax_liability
               [''basic_salary'' \<mapsto> 600000, ''hra'' \<mapsto> 100000, ''bonus'' \<mapsto> 50000]
               ''FY 2024-25 / AY 2025-26'' ''Salaried'' = Inr res
            \<and> taxable_income res = 675000)
   \<and> (\<exists>res. compute_total_tax_liability [''basic_salary'' \<mapsto> 50000]
               ''FY 2024-25 / AY 2025-26'' ''Salaried'' = Inr res
            \<and> taxable_income res = 0)
   \<and> (\<exists>res. compute_total_tax_liability
               [''rent_received'' \<mapsto> 500000, ''municipal_tax'' \<mapsto> 30000,
                ''interest_paid'' \<mapsto> 200000]
               ''FY 2024-25 / AY 2025-26'' ''Rental'' = Inr res
            \<and> taxable_income res = 270000)
   \<and> (\<exists>res. compute_total_tax_liability
               [''rent_received'' \<mapsto> 100000, ''municipal_tax'' \<mapsto> 30000,
                ''interest_paid'' \<mapsto> 200000]
               ''FY 2024-25 / AY 2025-26'' ''Rental'' = Inr res
            \<and> taxable_income res = 0)
   \<and> (\<exists>res. compute_total_tax_liability [''net_profit'' \<mapsto> 800000]
               ''FY 2024-25 / AY 2025-26'' ''Freelancer'' = Inr res
            \<and> taxable_income res = 800000)
   \<and> (\<exists>res. compute_total_tax_liability [''net_profit'' \<mapsto> 800000]
               ''FY 2024-25 / AY 2025-26'' ''Business'' = Inr res
            \<and> taxable_income res = 800000)
   \<and> (\<exists>res. compute_total_tax_liability
               [''dividends'' \<mapsto> 300000, ''interest_income'' \<mapsto> 50000]
               ''FY 2024-25 / AY 2025-26'' ''Investor'' = Inr res
            \<and> taxable_income res = 350000)
   \<and> (\<exists>res. compute_total_tax_liability [''basic_salary'' \<mapsto> 600000]
               ''FY 2024-25 / AY 2025-26'' ''Mixed'' = Inr res
            \<and> taxable_income res = 0)"
proof -
  note main = taxable_income_by_employment_type [OF fy_2024]
  have n1: "\<forall>k v. [''basic_salary'' \<mapsto> 600000, ''hra'' \<mapsto> 100000,
                   ''bonus'' \<mapsto> (50000::real)] k = Some v \<longrightarrow> 0 \<le> v"
    and n2: "\<forall>k v. [''basic_salary'' \<mapsto> (50000::real)] k = Some v \<longrightarrow> 0 \<le> v"
    and n3: "\<forall>k v. [''rent_received'' \<mapsto> 500000, ''municipal_tax'' \<mapsto> 30000,
                   ''interest_paid'' \<mapsto> (200000::real)] k = Some v \<longrightarrow> 0 \<le> v"
    and n4: "\<forall>k v. [''rent_received'' \<mapsto> 100000, ''municipal_tax'' \<mapsto> 30000,
                   ''interest_paid'' \<mapsto> (200000::real)] k = Some v \<longrightarrow> 0 \<le> v"
    and n5: "\<forall>k v. [''net_profit'' \<mapsto> (800000::real)] k = Some v \<longrightarrow> 0 \<le> v"
    and n6: "\<forall>k v. [''dividends'' \<mapsto> 300000,
                   ''interest_income'' \<mapsto> (50000::real)] k = Some v \<longrightarrow> 0 \<le> v"
    and n7: "\<forall>k v. [''basic_salary'' \<mapsto> (600000::real)] k = Some v \<longrightarrow> 0 \<le> v"
    by (auto split: if_splits)
  have a: "\<exists>res. compute_total_tax_liability
               [''basic_salary'' \<mapsto> 600000, ''hra'' \<mapsto> 100000, ''bonus'' \<mapsto> 50000]
               ''FY 2024-25 / AY 2025-26'' ''Salaried'' = Inr res
            \<and> taxable_income res = 675000"
    using main [where d = "[''basic_salary'' \<mapsto> 600000, ''hra'' \<mapsto> 100000,
                            ''bonus'' \<mapsto> 50000]" and et = "''Salaried''", OF n1]
    by auto
  have b: "\<exists>res. compute_total_tax_liability [''basic_salary'' \<mapsto> 50000]
               ''FY 2024-25 / AY 2025-26'' ''Salaried'' = Inr res
            \<and> taxable_income res = 0"
    using main [where d = "[''basic_salary'' \<mapsto> 50000]" and et = "''Salaried''", OF n2]
    by auto
  have c: "\<exists>res. compute_total_tax_liability
               [''rent_received'' \<mapsto> 500000, ''municipal_tax'' \<mapsto> 30000,
                ''interest_paid'' \<mapsto> 200000]
               ''FY 2024-25 / AY 2025-26'' ''Rental'' = Inr res
            \<and> taxable_income res = 270000"
    using main [where d = "[''rent_received'' \<mapsto> 500000, ''municipal_tax'' \<mapsto> 30000,
                            ''interest_paid'' \<mapsto> 200000]" and et = "''Rental''", OF n3]
    by auto
  have d: "\<exists>res. compute_total_tax_liability
               [''rent_received'' \<mapsto> 100000, ''municipal_tax'' \<mapsto> 30000,
                ''interest_paid'' \<mapsto> 200000]
               ''FY 2024-25 / AY 2025-26'' ''Rental'' = Inr res
            \<and> taxable_income res = 0"
    using main [where d = "[''rent_received'' \<mapsto> 100000, ''municipal_tax'' \<mapsto> 30000,
                            ''interest_paid'' \<mapsto> 200000]" and et = "''Rental''", OF n4]
    by auto
  have e: "\<exists>res. compute_total_tax_liability [''net_profit'' \<mapsto> 800000]
               ''FY 2024-25 / AY 2025-26'' ''Freelancer'' = Inr res
            \<and> taxable_income res = 800000"
    using main [where d = "[''net_profit'' \<mapsto> 800000]" and et = "''Freelancer''", OF n5]
    by auto
  have f: "\<exists>res. compute_total_tax_liability [''net_profit'' \<mapsto> 800000]
               ''FY 2024-25 / AY 2025-26'' ''Business'' = Inr res
            \<and> taxable_income res = 800000"
    using main [where d = "[''net_profit'' \<mapsto> 800000]" and et = "''Business''", OF n5]
    by auto
  have g: "\<exists>res. compute_total_tax_liability
               [''dividends'' \<mapsto> 300000, ''interest_income'' \<mapsto> 50000]
               ''FY 2024-25 / AY 2025-26'' ''Investor'' = Inr res
            \<and> taxable_income res = 350000"
    using main [where d = "[''dividends'' \<mapsto> 300000, ''interest_income'' \<mapsto> 50000]"
                  and et = "''Investor''", OF n6]
    by auto
  have h: "\<exists>res. compute_total_tax_liability [''basic_salary'' \<mapsto> 600000]
               ''FY 2024-25 / AY 2025-26'' ''Mixed'' = Inr res
            \<and> taxable_income res = 0"
    using main [where d = "[''basic_salary'' \<mapsto> 600000]" and et = "''Mixed''", OF n7]
    by auto
  from fy_2024 a b c d e f g h show ?thesis by (intro conjI)
qed

section \<open>The total liability\<close>



section \<open>Progressivity of the slab tax\<close>

text \<open>
  Claim C8. For each supported year the gross tax that \<open>calculate_income_tax\<close> returns,
  as a function of the taxable income, is continuous and non-decreasing on all reals (so
  on the non-negative ones). The rates of the slabs are in non-decreasing order, inside
  each slab the tax grows by the slab's rate times the growth of the income, and the
  growth of the tax over a step of fixed length never gets smaller when the step starts
  at a higher income: the marginal rate never decreases.
\<close>

theorem slab_tax_progressive:
  assumes cfg: "get_tax_slabs fy_ay = Some config"
  shows "(\<forall>t. calculate_income_tax t fy_ay = Inr (slab_loop t (slabs config) 0 []))
       \<and> continuous_on UNIV (\<lambda>t. fst (slab_loop t (slabs config) 0 []))
       \<and> (\<forall>t t'. t \<le> t' \<longrightarrow>
             fst (slab_loop t (slabs config) 0 []) \<le> fst (slab_loop t' (slabs config) 0 []))
       \<and> sorted (map (\<lambda>(l, u, r). r) (slabs config))
       \<and> (\<forall>(l, u, r)\<in>set (slabs config). \<forall>t t'. l \<le> t \<and> t \<le> t' \<and> le_upper t' u \<longrightarrow>
             fst (slab_loop t' (slabs config) 0 []) - fst (slab_loop t (slabs config) 0 [])
               = r * (t' - t))
       \<and> (\<forall>t1 t2 h. t1 \<le> t2 \<and> 0 \<le> h \<longrightarrow>
             fst (slab_loop (t1 + h) (slabs config) 0 []) - fst (slab_loop t1 (slabs config) 0 [])
               \<le> fst (slab_loop (t2 + h) (slabs config) 0 [])
                   - fst (slab_loop t2 (slabs config) 0 []))"
proof -
  have loop: "fst (slab_loop t (slabs config) 0 []) = spec_slab_tax t (slabs config)" for t
    using slab_loop_tax [OF supported_slabs_ordered [OF cfg], of t 0 "[]"] by simp
  have call: "\<forall>t. calculate_income_tax t fy_ay = Inr (slab_loop t (slabs config) 0 [])"
    by (simp add: calculate_income_tax_def cfg)
  have cont: "continuous_on UNIV (\<lambda>t. fst (slab_loop t (slabs config) 0 []))"
    unfolding loop by (rule spec_slab_tax_continuous)
  have mono: "\<forall>t t'. t \<le> t' \<longrightarrow>
             fst (slab_loop t (slabs config) 0 []) \<le> fst (slab_loop t' (slabs config) 0 [])"
    unfolding loop
    using spec_slab_tax_mono [OF supported_rates_nonneg [OF cfg]] by blast
  from get_tax_slabs_Some [OF cfg]
  have rates: "sorted (map (\<lambda>(l, u, r). r) (slabs config))"
    using rates_sorted by auto
  from get_tax_slabs_Some [OF cfg]
  have slope: "\<forall>(l, u, r)\<in>set (slabs config). \<forall>t t'. l \<le> t \<and> t \<le> t' \<and> le_upper t' u \<longrightarrow>
             fst (slab_loop t' (slabs config) 0 []) - fst (slab_loop t (slabs config) 0 [])
               = r * (t' - t)"
    unfolding loop using slope_2024 slope_2025 by auto
  from get_tax_slabs_Some [OF cfg]
  have convex: "\<forall>t1 t2 h. t1 \<le> t2 \<and> 0 \<le> h \<longrightarrow>
             fst (slab_loop (t1 + h) (slabs config) 0 []) - fst (slab_loop t1 (slabs config) 0 [])
               \<le> fst (slab_loop (t2 + h) (slabs config) 0 [])
                   - fst (slab_loop t2 (slabs config) 0 [])"
    unfolding loop using tax_2024_convex tax_2025_convex by auto
  from call cont mono rates slope convex show ?thesis
    by (intro conjI)
qed

text \<open>
  In the year 2024-25, around the boundary 700000 where the rate rises from 5 to
  10 percent: the tax does not fall, it grows by 10 percent inside the third slab, and a
  step of 100000 costs no less from 700000 than from 650000.
\<close>

theorem slab_tax_progressive_witness:
  "get_tax_slabs ''FY 2024-25 / AY 2025-26'' = Some config_2024
   \<and> calculate_income_tax 700001 ''FY 2024-25 / AY 2025-26''
       = Inr (slab_loop 700001 (slabs config_2024) 0 [])
   \<and> fst (slab_loop 700000 (slabs config_2024) 0 [])
       \<le> fst (slab_loop 700001 (slabs config_2024) 0 [])
   \<and> (700000, Upto 1000000, 0.10) \<in> set (slabs config_2024)
   \<and> fst (slab_loop 750000 (slabs config_2024) 0 [])
         - fst (slab_loop 700000 (slabs config_2024) 0 [])
       = 0.10 * (750000 - 700000)
   \<and> fst (slab_loop (650000 + 100000) (slabs config_2024) 0 [])
         - fst (slab_loop 650000 (slabs config_2024) 0 [])
       \<le> fst (slab_loop (700000 + 100000) (slabs config_2024) 0 [])
         - fst (slab_loop 700000 (slabs config_2024) 0 [])"
proof -
  note main = slab_tax_progressive [OF fy_2024]
  have m: "(700000, Upto 1000000, 0.10) \<in> set (slabs config_2024)"
    by (simp add: config_2024_def)
  from main have a: "calculate_income_tax 700001 ''FY 2024-25 / AY 2025-26''
       = Inr (slab_loop 700001 (slabs config_2024) 0 [])"
    by blast
  from main have "(700000::real) \<le> 700001 \<longrightarrow> fst (slab_loop 700000 (slabs config_2024) 0 [])
       \<le> fst (slab_loop 700001 (slabs config_2024) 0 [])"
    by blast
  then have b: "fst (slab_loop 700000 (slabs config_2024) 0 [])
       \<le> fst (slab_loop 700001 (slabs config_2024) 0 [])"
    by simp
  from main have "\<forall>(l, u, r)\<in>set (slabs config_2024).
       \<forall>t t'. l \<le> t \<and> t \<le> t' \<and> le_upper t' u \<longrightarrow>
         fst (slab_loop t' (slabs config_2024) 0 []) - fst (slab_loop t (slabs config_2024) 0 [])
           = r * (t' - t)"
    by blast
  with m have "\<forall>t t'. 700000 \<le> t \<and> t \<le> t' \<and> le_upper t' (Upto 1000000) \<longrightarrow>
         fst (slab_loop t' (slabs config_2024) 0 []) - fst (slab_loop t (slabs config_2024) 0 [])
           = 0.10 * (t' - t)"
    by blast
  then have "(700000::real) \<le> 700000 \<and> (700000::real) \<le> 750000
                \<and> le_upper 750000 (Upto 1000000) \<longrightarrow>
         fst (slab_loop 750000 (slabs config_2024) 0 [])
           - fst (slab_loop 700000 (slabs config_2024) 0 [])
           = 0.10 * (750000 - 700000)"
    by blast
  then have c: "fst (slab_loop 750000 (slabs config_2024) 0 [])
           - fst (slab_loop 700000 (slabs config_2024) 0 [])
           = 0.10 * (750000 - 700000)"
    by simp
  from main have "(650000::real) \<le> 700000 \<and> (0::real) \<le> 100000 \<longrightarrow>
       fst (slab_loop (650000 + 100000) (slabs config_2024) 0 [])
         - fst (slab_loop 650000 (slabs config_2024) 0 [])
       \<le> fst (slab_loop (700000 + 100000) (slabs config_2024) 0 [])
         - fst (slab_loop 700000 (slabs config_2024) 0 [])"
    by blast
  then have d: "fst (slab_loop (650000 + 100000) (slabs config_2024) 0 [])
         - fst (slab_loop 650000 (slabs config_2024) 0 [])
       \<le> fst (slab_loop (700000 + 100000) (slabs config_2024) 0 [])
         - fst (slab_loop 700000 (slabs config_2024) 0 [])"
    by simp
  from fy_2024 a b m c d show ?thesis
    by (intro conjI)
qed

section \<open>The scenario of the specification\<close>

text \<open>
  Claim C9. For the employment type \<open>Salaried\<close> and the year 2025-26, with a basic
  salary of 600000 and HRA, bonus and both capital gains reading as 0, the pipeline
  returns taxable income 525000, gross tax 6250, rebate 6250, tax after rebate 0,
  surcharge 0, cess 0, total 0 and no advance tax; the breakdown has the one entry of
  the 5 percent slab.
\<close>

theorem scenario_salaried_600000:
  assumes "get_or_zero d ''basic_salary'' = 600000"
    and "get_or_zero d ''hra'' = 0" and "get_or_zero d ''bonus'' = 0"
    and "get_or_zero d ''stcg'' = 0" and "get_or_zero d ''ltcg'' = 0"
  shows "compute_total_tax_liability d ''FY 2025-26 / AY 2026-27'' ''Salaried''
           = Inr \<lparr> taxable_income = 525000, gross_tax = 6250, rebate_87a = 6250,
                   tax_after_rebate = 0, surcharge = 0, cess = 0,
                   stcg_tax = 0, ltcg_tax = 0, total_tax = 0,
                   advance_tax_required = False,
                   tax_breakdown =
                     [\<lparr> bd_slab = Between 400000 700000, bd_rate = 5,
                         bd_taxable_amount = 125000, bd_tax = 6250 \<rparr>] \<rparr>"
proof -
  have t: "derive_taxable_income d ''FY 2025-26 / AY 2026-27'' ''Salaried'' = Inr 525000"
    by (simp add: derive_taxable_income_def assms fy_2025 config_2025_def)
  have g: "calculate_income_tax 525000 ''FY 2025-26 / AY 2026-27''
             = Inr (6250, [\<lparr> bd_slab = Between 400000 700000, bd_rate = 5,
                              bd_taxable_amount = 125000, bd_tax = 6250 \<rparr>])"
    by (simp add: calculate_income_tax_def fy_2025 config_2025_def Let_def)
  have r: "calculate_rebate_87a 6250 525000 ''FY 2025-26 / AY 2026-27'' = Inr 6250"
    by (simp add: calculate_rebate_87a_def fy_2025 config_2025_def)
  have s: "calculate_cess_and_surcharge 0 525000 = (0, 0)"
    by (simp add: calculate_cess_and_surcharge_def)
  have c: "calculate_capital_gains_tax 0 0 = (0, 0)"
    by (simp add: calculate_capital_gains_tax_def)
  show ?thesis
    by (simp add: compute_total_tax_liability_def t g r s c assms fy_2025 config_2025_def)
qed

text \<open>The dictionary with the three salary fields and nothing else.\<close>

theorem scenario_salaried_600000_witness:
  "get_or_zero [''basic_salary'' \<mapsto> 600000, ''hra'' \<mapsto> 0, ''bonus'' \<mapsto> 0]
       ''basic_salary'' = 600000
   \<and> compute_total_tax_liability [''basic_salary'' \<mapsto> 600000, ''hra'' \<mapsto> 0, ''bonus'' \<mapsto> 0]
         ''FY 2025-26 / AY 2026-27'' ''Salaried''
       = Inr \<lparr> taxable_income = 525000, gross_tax = 6250, rebate_87a = 6250,
               tax_after_rebate = 0, surcharge = 0, cess = 0,
               stcg_tax = 0, ltcg_tax = 0, total_tax = 0,
               advance_tax_required = False,
               tax_breakdown =
                 [\<lparr> bd_slab = Between 400000 700000, bd_rate = 5,
                     bd_taxable_amount = 125000, bd_tax = 6250 \<rparr>] \<rparr>"
proof -
  have g: "get_or_zero [''basic_salary'' \<mapsto> 600000, ''hra'' \<mapsto> 0, ''bonus'' \<mapsto> 0]
             ''basic_salary'' = 600000"
    "get_or_zero [''basic_salary'' \<mapsto> 600000, ''hra'' \<mapsto> 0, ''bonus'' \<mapsto> 0] ''hra'' = 0"
    "get_or_zero [''basic_salary'' \<mapsto> 600000, ''hra'' \<mapsto> 0, ''bonus'' \<mapsto> 0] ''bonus'' = 0"
    "get_or_zero [''basic_salary'' \<mapsto> 600000, ''hra'' \<mapsto> 0, ''bonus'' \<mapsto> 0] ''stcg'' = 0"
    "get_or_zero [''basic_salary'' \<mapsto> 600000, ''hra'' \<mapsto> 0, ''bonus'' \<mapsto> 0] ''ltcg'' = 0"
    by (simp_all add: get_or_zero_def)
  show ?thesis
    using g(1) scenario_salaried_600000 [OF g] by (intro conjI)
qed

section \<open>The rebate never exceeds the gross tax\<close>

text \<open>
  Claim C10, as the code has it. The gross tax that \<open>calculate_income_tax\<close> returns is
  never negative, and for a gross tax that is not negative the rebate of
  \<open>calculate_rebate_87a\<close> never exceeds it, whatever the taxable income and the year.
  So in every result of the pipeline the rebate is at most the gross tax and the tax
  after rebate is not negative.
\<close>

theorem rebate_never_exceeds_gross_tax:
  "(calculate_income_tax t fy_ay = Inr (g, bd) \<longrightarrow> 0 \<le> g)
   \<and> (0 \<le> g' \<and> calculate_rebate_87a g' t fy_ay = Inr rb \<longrightarrow> rb \<le> g')
   \<and> (compute_total_tax_liability d fy_ay et = Inr res \<longrightarrow>
         0 \<le> gross_tax res \<and> rebate_87a res \<le> gross_tax res \<and> 0 \<le> tax_after_rebate res)"
proof (intro conjI impI)
  assume a: "calculate_income_tax t fy_ay = Inr (g, bd)"
  then obtain config where cfg: "get_tax_slabs fy_ay = Some config"
    by (auto simp: calculate_income_tax_def split: option.splits)
  from a supported_tax [OF cfg, of t] have "g = spec_slab_tax t (slabs config)"
    by simp
  then show "0 \<le> g"
    using spec_slab_tax_nonneg [OF supported_rates_nonneg [OF cfg]] by simp
next
  assume "0 \<le> g' \<and> calculate_rebate_87a g' t fy_ay = Inr rb"
  then show "rb \<le> g'"
    by (auto simp: calculate_rebate_87a_def split: option.splits if_splits)
next
  assume res: "compute_total_tax_liability d fy_ay et = Inr res"
  from compute_total_fields [OF res] obtain config
    where cfg: "get_tax_slabs fy_ay = Some config"
      and rb: "calculate_rebate_87a (gross_tax res) (taxable_income res) fy_ay
                 = Inr (rebate_87a res)"
      and after: "tax_after_rebate res = gross_tax res - rebate_87a res"
    by blast
  have "gross_tax res = spec_slab_tax (taxable_income res) (slabs config)"
    by (rule result_gross_tax [OF res cfg])
  then show g0: "0 \<le> gross_tax res"
    using spec_slab_tax_nonneg [OF supported_rates_nonneg [OF cfg]] by simp
  with rb show le: "rebate_87a res \<le> gross_tax res"
    by (auto simp: calculate_rebate_87a_def split: option.splits if_splits)
  with after show "0 \<le> tax_after_rebate res"
    by simp
qed

text \<open>
  An income of 1300000 in the year 2025-26, above the ceiling, and a business with a net
  profit of 1200000, at the ceiling.
\<close>

theorem rebate_never_exceeds_gross_tax_witness:
  "calculate_income_tax 1300000 ''FY 2025-26 / AY 2026-27''
     = Inr (95000, snd (slab_loop 1300000 (slabs config_2025) 0 []))
   \<and> calculate_rebate_87a 95000 1300000 ''FY 2025-26 / AY 2026-27'' = Inr 0
   \<and> (0::real) \<le> 95000
   \<and> (\<exists>res. compute_total_tax_liability [''net_profit'' \<mapsto> 1200000]
               ''FY 2025-26 / AY 2026-27'' ''Business'' = Inr res
            \<and> 0 \<le> gross_tax res \<and> rebate_87a res \<le> gross_tax res
            \<and> 0 \<le> tax_after_rebate res)"
proof -
  have a: "calculate_income_tax 1300000 ''FY 2025-26 / AY 2026-27''
     = Inr (95000, snd (slab_loop 1300000 (slabs config_2025) 0 []))"
    using supported_tax [OF fy_2025, of 1300000] by (simp add: config_2025_def)
  have b: "calculate_rebate_87a 95000 1300000 ''FY 2025-26 / AY 2026-27'' = Inr 0"
    by (simp add: calculate_rebate_87a_def fy_2025 config_2025_def)
  obtain res where res: "compute_total_tax_liability [''net_profit'' \<mapsto> 1200000]
               ''FY 2025-26 / AY 2026-27'' ''Business'' = Inr res"
    using compute_total_returns [OF fy_2025] by blast
  from rebate_never_exceeds_gross_tax
         [of 1300000 "''FY 2025-26 / AY 2026-27''" 95000
             "snd (slab_loop 1300000 (slabs config_2025) 0 [])" 95000 0
             "[''net_profit'' \<mapsto> 1200000]" "''Business''" res]
    a b res
  show ?thesis by auto
qed

text \<open>
  The claim as it is worded speaks of any gross tax. \<open>calculate_rebate_87a\<close> takes the
  gross tax as an argument of its own, and above the ceiling it returns 0 whatever that
  argument is: for the number -1 the rebate 0 exceeds it.
\<close>

theorem rebate_exceeds_negative_gross_tax_counterexample:
  "calculate_rebate_87a (- 1) 1300000 ''FY 2025-26 / AY 2026-27'' = Inr 0
   \<and> \<not> (0::real) \<le> - 1"
  by (simp add: calculate_rebate_87a_def fy_2025 config_2025_def)

end
